theory Spec2Isabelle
  imports Complex_Main "HOL-Library.AList"
begin

section \<open>Python values, dictionaries and exceptions\<close>

text \<open>
  The embedding follows \<^verbatim>\<open>mpcpy/optimization.py\<close>.  A Python exception is a value of
  type \<open>error\<close>; a dictionary is an association list in its iteration order, read with
  \<open>getitem\<close> (which raises \<open>KeyError\<close> on a missing key, as \<^verbatim>\<open>d[k]\<close> does) and
  written with \<open>setitem\<close>.  A leading underscore of a Python name is dropped, and a method
  name is prefixed by its class where two classes define it.
\<close>

datatype error =
    KeyError string
  | IndexError string
  | TypeError string
  | AttributeError string
  | ValueError string
  | ExternalError string

type_synonym 'v dict = "(string \<times> 'v) list"

definition getitem :: "'v dict \<Rightarrow> string \<Rightarrow> error + 'v" where
  "getitem d k = (case map_of d k of None \<Rightarrow> Inl (KeyError k) | Some v \<Rightarrow> Inr v)"

definition setitem :: "'v dict \<Rightarrow> string \<Rightarrow> 'v \<Rightarrow> 'v dict" where
  "setitem d k v = AList.update k v d"

definition keys :: "'v dict \<Rightarrow> string list" where
  "keys d = map fst d"

text \<open>
  The result object of a simulation or of an optimization: \<^verbatim>\<open>res[name]\<close> is a sampled
  trajectory, \<^verbatim>\<open>res.initial(name)\<close> a point value, \<^verbatim>\<open>res.get_solver_statistics()\<close>
  the tuple (status, iterations, objective, solve time).
\<close>

record result =
  trajectories :: "real list dict"
  initials :: "real dict"
  solver_statistics :: "string \<times> int \<times> real \<times> real"

text \<open>The \<^verbatim>\<open>ExternalData\<close> structure of the collocation package.\<close>

record external_data =
  Q :: "real list list"
  quad_pen :: "(real list \<times> real list) dict"
  eliminated :: "(real list \<times> real list) dict"

text \<open>Values that an option dictionary holds.\<close>

datatype pyval =
    PNone
  | PBool bool
  | PInt int
  | PReal real
  | PStr string
  | PDict "(string \<times> pyval) list"
  | PExternalData external_data
  | PResult result

section \<open>The data model\<close>

text \<open>
  A variable of \<^verbatim>\<open>mpcpy.variables\<close> (\<^verbatim>\<open>Static\<close> or \<^verbatim>\<open>Timeseries\<close>) carries a name, its
  data and a unit; \<^verbatim>\<open>get_base_data()\<close> reads the data, a scalar or a series of
  (timestamp, value) samples.  Unit conversion belongs to \<^verbatim>\<open>mpcpy.units\<close> and is left
  out: the data are kept in base units.
\<close>

type_synonym unit = string

definition unit1 :: unit where
  "unit1 = ''unit1''"

datatype basedata = Scalar real | Series "(real \<times> real) list"

record variable =
  var_name :: string
  var_data :: basedata
  var_unit :: unit

definition get_base_data :: "variable \<Rightarrow> basedata" where
  "get_base_data v = var_data v"

definition Timeseries :: "string \<Rightarrow> (real \<times> real) list \<Rightarrow> unit \<Rightarrow> variable" where
  "Timeseries key ts u = \<lparr>var_name = key, var_data = Series ts, var_unit = u\<rparr>"

text \<open>Python truth of a scalar base datum (\<^verbatim>\<open>False\<close> and \<^verbatim>\<open>0\<close> are false).\<close>

fun truthy :: "basedata \<Rightarrow> error + bool" where
  "truthy (Scalar r) = Inr (r \<noteq> 0)"
| "truthy (Series ts) = Inl (ValueError ''The truth value of a Series is ambiguous'')"

text \<open>
  The attributes of the \<^verbatim>\<open>Model\<close> object that the optimization module reads or writes.
  An entry of \<open>other_inputs\<close> is \<open>None\<close> while it holds the placeholder \<^verbatim>\<open>[]\<close>.
\<close>

record model =
  mopath :: string
  modelpath :: string
  libraries :: "string list"
  input_names :: "string list"
  other_inputs :: "variable option dict"
  weather_data :: "variable dict"
  internal_data :: "variable dict"
  control_data :: "variable dict"
  measurements :: "variable dict dict"
  parameter_data :: "variable dict dict"
  start_time :: real
  final_time :: real
  start_time_utc :: real
  final_time_utc :: real
  elapsed_seconds :: real

datatype problem = EnergyMin | EnergyCostMin | ParameterEstimate

datatype package_kind = JModelica | Python

text \<open>
  The problem object returned by \<^verbatim>\<open>transfer_optimization_problem\<close>: the class that was
  transferred, the text of the \<^verbatim>\<open>.mop\<close> file it was read from and the values given to it
  by \<^verbatim>\<open>set(name, value)\<close>.
\<close>

record opt_problem =
  op_class :: string
  op_mop :: "string list"
  op_values :: "basedata dict"

text \<open>
  A solver package object.  \<open>pk_Model\<close> is the reference to the \<^verbatim>\<open>Model\<close> object; the
  attributes \<^verbatim>\<open>_init_input_names\<close> and \<^verbatim>\<open>other_inputs\<close> of the package are the very
  objects \<^verbatim>\<open>Model.input_names\<close> and \<^verbatim>\<open>Model.other_inputs\<close>, so they live in the Model
  and every write through the package is a write to the Model.  An attribute that exists only
  once it has been assigned (\<^verbatim>\<open>hasattr\<close>) is an option.
\<close>

record package =
  kind :: package_kind
  pk_Model :: nat
  objective :: string
  extra_inputs :: "variable option dict"
  moppath :: string
  mopfile :: "string list"
  mopmodelpath :: string
  opt_input_names :: "string list"
  fmupath :: string
  opt_problem :: "opt_problem option"
  opt_options :: "pyval dict option"
  measurement_variable_list :: "string list option"
  pk_parameter_data :: "variable dict dict option"
  pk_input_names :: "string list"
  pk_measurements :: "string dict"
  pk_start_time_utc :: real
  pk_final_time_utc :: real
  pk_elapsed_seconds :: real
  sim_opts_ncp :: "int option"
  res :: "result option"
  res_init :: "result option"
  input_object :: "(string list \<times> real list list) option"
  pk_external_data :: "external_data option"
  res_opt :: "result option"

text \<open>The \<^verbatim>\<open>Optimization\<close> object.  \<open>Model\<close> is a reference into the store of models.\<close>

record optimization =
  Model :: nat
  constraint_data :: "variable dict dict"
  objective_variable :: string
  problem_type :: problem
  package_type :: package
  solver_package :: "string option"
  algorithm :: "string option"

text \<open>
  What the program touches outside itself is recorded in a trace, in the order of the calls:
  the compilation and the transfer of the \<^verbatim>\<open>.mop\<close> file, each simulation, each
  \<^verbatim>\<open>opt_problem.set\<close>, each call of \<^verbatim>\<open>opt_problem.optimize\<close> and each return from it
  with a result.
\<close>

datatype event =
    CompileFmu string
  | Transfer string
  | Simulate real
  | ProblemSet string basedata
  | ProblemOptimize "pyval dict"
  | OptimizeReturned result

record world =
  store :: "nat \<Rightarrow> model"
  trace :: "event list"

section \<open>The option store of a solver package\<close>

text \<open>
  \<^verbatim>\<open>JModelica._set_optimization_options\<close> and \<^verbatim>\<open>Python._set_optimization_options\<close>
  have the same body.  The loop over the keys of the supplied dictionary raises at the first
  automatically set key whose supplied value differs from the stored one; reading the stored
  value of a key the store does not have raises \<open>KeyError\<close> as well.
\<close>

definition auto_keys :: "string list" where
  "auto_keys = [''external_data'', ''init_traj'', ''nominal_traj'', ''n_e'']"

fun check_auto_keys :: "pyval dict option \<Rightarrow> pyval dict \<Rightarrow> string list \<Rightarrow> error option" where
  "check_auto_keys stored opts [] = None"
| "check_auto_keys stored opts (key # rest) =
     (if key \<in> set auto_keys then
        (case getitem opts key of
           Inl e \<Rightarrow> Some e
         | Inr new \<Rightarrow>
            (case stored of
               None \<Rightarrow> Some (AttributeError ''opt_options'')
             | Some st \<Rightarrow>
                (case getitem st key of
                   Inl e \<Rightarrow> Some e
                 | Inr old \<Rightarrow>
                     if new \<noteq> old
                     then Some (KeyError (''Key '' @ key @ '' is set automatically upon solve.''))
                     else check_auto_keys stored opts rest)))
      else check_auto_keys stored opts rest)"

definition Package_set_optimization_options ::
  "package \<Rightarrow> pyval dict \<Rightarrow> bool \<Rightarrow> error + package" where
  "Package_set_optimization_options self opts init =
     (if \<not> init then
        (case check_auto_keys (opt_options self) opts (keys opts) of
           Some e \<Rightarrow> Inl e
         | None \<Rightarrow> Inr (self\<lparr>opt_options := Some opts\<rparr>))
      else Inr (self\<lparr>opt_options := Some opts\<rparr>))"

definition Package_get_optimization_options :: "package \<Rightarrow> error + pyval dict" where
  "Package_get_optimization_options self =
     (case opt_options self of
        None \<Rightarrow> Inl (AttributeError ''opt_options'')
      | Some stored \<Rightarrow> Inr stored)"

definition Package_get_optimization_statistics ::
  "package \<Rightarrow> error + (string \<times> int \<times> real \<times> real)" where
  "Package_get_optimization_statistics self =
     (case res_opt self of
        None \<Rightarrow> Inl (AttributeError ''res_opt'')
      | Some r \<Rightarrow> Inr (solver_statistics r))"

section \<open>Collaborators outside the module\<close>

text \<open>
  The functions of other packages that the module calls are parameters, collected in one
  record: Python's \<^verbatim>\<open>str\<close> of a base datum, the lines of the \<^verbatim>\<open>.mo\<close> file at a path,
  \<^verbatim>\<open>compile_fmu\<close> and \<^verbatim>\<open>transfer_optimization_problem\<close> (each may raise), the default
  options of a transferred problem, the simulation of the compiled unit (\<^verbatim>\<open>_simulate_fmu\<close>),
  the input object built from the input time series, the numerical solve
  \<^verbatim>\<open>opt_problem.optimize\<close> (it may raise) and the unit class of a variable of the unit.
\<close>

text \<open>
  Modelled from the spec: \<^verbatim>\<open>utility._FMU\<close> is not among the sources.  Its
  \<^verbatim>\<open>_simulate_fmu\<close> is, in the words of the specification, a ``simulate over current window''
  operation ``returning a trajectory result keyed by variable name plus a time vector'';
  here it returns that result together with the number of communication points it used
  (\<^verbatim>\<open>_sim_opts['ncp']\<close>), or raises.  \<^verbatim>\<open>_create_input_mpcpy_ts_list_opt\<close> followed by
  \<^verbatim>\<open>_create_input_object_from_input_mpcpy_ts_list\<close> yields the input object: the names of
  the inputs and the columns of the input matrix, the first column being time; \<open>None\<close> is
  the empty object. \<^verbatim>\<open>_get_unit_class_from_fmu_variable_units\<close> yields a unit class or
  nothing.
\<close>

record ext =
  py_str :: "basedata \<Rightarrow> string"
  read_mo :: "string \<Rightarrow> string list"
  compile_fmu :: "string \<Rightarrow> string list \<Rightarrow> error + string"
  transfer_optimization_problem :: "string \<Rightarrow> string list \<Rightarrow> error option"
  optimize_options :: "opt_problem \<Rightarrow> pyval dict"
  simulate_fmu :: "package \<Rightarrow> model \<Rightarrow> error + (result \<times> int)"
  create_input_object :: "package \<Rightarrow> model \<Rightarrow> (string list \<times> real list list) option"
  nlp_optimize :: "opt_problem \<Rightarrow> pyval dict \<Rightarrow> error + result"
  unit_class :: "string \<Rightarrow> unit option"

text \<open>
  A call either raises, with the state as it was at the raise, or returns the new state.
  The state of a method of a package is the package object and the world, that of a method
  of the \<^verbatim>\<open>Optimization\<close> object is that object and the world.
\<close>

type_synonym 's outcome = "(error \<times> 's) + 's"

definition try_pure :: "'s \<Rightarrow> error + 'a \<Rightarrow> ('a \<Rightarrow> 's outcome) \<Rightarrow> 's outcome" where
  "try_pure s m f = (case m of Inl e \<Rightarrow> Inl (e, s) | Inr x \<Rightarrow> f x)"

definition and_then :: "'s outcome \<Rightarrow> ('s \<Rightarrow> 's outcome) \<Rightarrow> 's outcome" where
  "and_then m f = (case m of Inl es \<Rightarrow> Inl es | Inr s \<Rightarrow> f s)"

text \<open>The state in which a call ended, whether it raised or returned.\<close>

definition outcome_state :: "'s outcome \<Rightarrow> 's" where
  "outcome_state r = (case r of Inl (e, s) \<Rightarrow> s | Inr s \<Rightarrow> s)"

definition the_Model :: "package \<Rightarrow> world \<Rightarrow> model" where
  "the_Model self w = store w (pk_Model self)"

definition update_Model :: "package \<Rightarrow> (model \<Rightarrow> model) \<Rightarrow> world \<Rightarrow> world" where
  "update_Model self f w = w\<lparr>store := (store w)(pk_Model self := f (store w (pk_Model self)))\<rparr>"

definition emit :: "event \<Rightarrow> world \<Rightarrow> world" where
  "emit ev w = w\<lparr>trace := trace w @ [ev]\<rparr>"

section \<open>String operations of Python\<close>

fun split_on :: "char \<Rightarrow> string \<Rightarrow> string \<Rightarrow> string list" where
  "split_on c acc [] = [rev acc]"
| "split_on c acc (x # xs) =
     (if x = c then rev acc # split_on c [] xs else split_on c (x # acc) xs)"

definition split_dot :: "string \<Rightarrow> string list" where
  "split_dot s = split_on (CHR ''.'') [] s"

fun join_dot :: "string list \<Rightarrow> string" where
  "join_dot [] = []"
| "join_dot [x] = x"
| "join_dot (x # y # ys) = x @ ''.'' @ join_dot (y # ys)"

definition replace_dot :: "string \<Rightarrow> string" where
  "replace_dot s = map (\<lambda>c. if c = CHR ''.'' then CHR ''_'' else c) s"

fun is_prefix :: "string \<Rightarrow> string \<Rightarrow> bool" where
  "is_prefix [] s = True"
| "is_prefix (p # ps) [] = False"
| "is_prefix (p # ps) (x # xs) = (p = x \<and> is_prefix ps xs)"

fun contains :: "string \<Rightarrow> string \<Rightarrow> bool" where
  "contains p [] = (p = [])"
| "contains p (x # xs) = (is_prefix p (x # xs) \<or> contains p xs)"

section \<open>Writing the augmented problem\<close>

text \<open>The copy of the \<^verbatim>\<open>.mo\<close> file, up to the line that ends the top-level package.\<close>

fun copy_mo :: "string \<Rightarrow> string list \<Rightarrow> string list" where
  "copy_mo pkg [] = []"
| "copy_mo pkg (line # rest) =
     (if contains (''end '' @ pkg) line then []
      else if \<not> contains ''within ;'' line \<and> \<not> contains ''annotation (uses'' line
              \<and> \<not> contains (''(version='' @ [CHR 0x22]) line
           then line # copy_mo pkg rest
           else copy_mo pkg rest)"

text \<open>The value of a parameter as text: \<^verbatim>\<open>str(parameter_data[key]['Value'].get_base_data())\<close>.\<close>

definition parameter_text :: "ext \<Rightarrow> variable dict dict \<Rightarrow> string \<Rightarrow> string \<Rightarrow> error + string" where
  "parameter_text X pd key field =
     (case getitem pd key of
        Inl e \<Rightarrow> Inl e
      | Inr entry \<Rightarrow>
         (case getitem entry field of
            Inl e \<Rightarrow> Inl e
          | Inr v \<Rightarrow> Inr (py_str X (get_base_data v))))"

fun parameter_lines :: "ext \<Rightarrow> variable dict dict \<Rightarrow> string list \<Rightarrow> error + string list" where
  "parameter_lines X pd [] = Inr []"
| "parameter_lines X pd (key # rest) =
     (case parameter_text X pd key ''Value'' of
        Inl e \<Rightarrow> Inl e
      | Inr txt \<Rightarrow>
         (case parameter_lines X pd rest of
            Inl e \<Rightarrow> Inl e
          | Inr ls \<Rightarrow> Inr ((''     '' @ key @ ''='' @ txt @ '',\<newline>'') # ls)))"

definition initalize_mop :: "ext \<Rightarrow> package \<Rightarrow> world \<Rightarrow> (package \<times> world) outcome" where
  "initalize_mop X self w =
     (let M = the_Model self w;
          path = split_dot (modelpath M);
          copied = copy_mo (hd path) (read_mo X (mopath M));
          head = copied @ [''\<newline>'',
                   ''  model '' @ last path @ ''_initialize\<newline>'',
                   ''    '' @ join_dot (tl path) @ '' mpc_model(\<newline>'']
      in try_pure (self, w)
           (if parameter_data M \<noteq> [] then
              (case parameter_lines X (parameter_data M) (butlast (keys (parameter_data M))) of
                 Inl e \<Rightarrow> Inl e
               | Inr ls \<Rightarrow>
                  (case parameter_text X (parameter_data M) (last (keys (parameter_data M))) ''Value'' of
                     Inl e \<Rightarrow> Inl e
                   | Inr txt \<Rightarrow>
                       Inr (ls @ [''     '' @ last (keys (parameter_data M)) @ ''='' @ txt @ '');\<newline>''])))
            else Inr ['');\<newline>''])
           (\<lambda>params.
              let inputs = map (\<lambda>key. ''    input Real '' @ key @ ''= mpc_model.'' @ key @ '';\<newline>'')
                             (input_names M);
                  extra = keys (extra_inputs self);
                  w' = update_Model self
                         (\<lambda>m. m\<lparr>input_names := input_names m @ extra,
                                 other_inputs := fold (\<lambda>(key, v) d. setitem d key v)
                                                   (extra_inputs self) (other_inputs m)\<rparr>) w;
                  extras = map (\<lambda>key. ''    input Real '' @ key @ '';\<newline>'') extra;
                  cost = [''    Real J(start = 0, fixed=true);\<newline>'',
                          ''  equation\<newline>'',
                          ''    der(J) = '' @ objective self @ '';\<newline>'',
                          ''  end '' @ last path @ ''_initialize;\<newline>'']
              in Inr (self\<lparr>moppath := mopath M @ ''p'',
                            mopfile := head @ params @ inputs @ extras @ cost,
                            mopmodelpath := hd path @ ''.'' @ last path\<rparr>, w')))"

text \<open>
  \<^verbatim>\<open>_write_control_mop\<close> walks the constraint data twice, each time over every key and
  every field of the key, in the same order.
\<close>

definition constraint_items :: "variable dict dict \<Rightarrow> (string \<times> string \<times> variable) list" where
  "constraint_items cd =
     concat (map (\<lambda>(key, fields). map (\<lambda>(field, v). (key, field, v)) fields) cd)"

definition key_new :: "string \<Rightarrow> string \<Rightarrow> string" where
  "key_new key field = replace_dot key @ ''_'' @ field"

text \<open>The first walk: every field but the three point constraints becomes an input.\<close>

definition is_input_field :: "string \<Rightarrow> bool" where
  "is_input_field field = (field \<noteq> ''Cyclic'' \<and> field \<noteq> ''Final'' \<and> field \<noteq> ''Initial'')"

definition constraint_inputs :: "variable dict dict \<Rightarrow> (string \<times> variable) list" where
  "constraint_inputs cd =
     map (\<lambda>(key, field, v). (key_new key field, v))
       (filter (\<lambda>(key, field, v). is_input_field field) (constraint_items cd))"

text \<open>The second walk: the text written for one field of one key, if any.\<close>

definition constraint_clause :: "ext \<Rightarrow> string \<Rightarrow> string \<Rightarrow> variable \<Rightarrow> string list" where
  "constraint_clause X key field v =
     (if field = ''GTE'' then
        [''    mpc_model.'' @ key @ '' >= '' @ key_new key field @ '';\<newline>'']
      else if field = ''dGTE'' then
        [''    der(mpc_model.'' @ key @ '') >= '' @ key_new key field @ '';\<newline>'']
      else if field = ''LTE'' then
        [''    mpc_model.'' @ key @ '' <= '' @ key_new key field @ '';\<newline>'']
      else if field = ''dLTE'' then
        [''    der(mpc_model.'' @ key @ '') <= '' @ key_new key field @ '';\<newline>'']
      else if field = ''Initial'' then
        [''    mpc_model.'' @ key @ ''(startTime)='' @ py_str X (get_base_data v) @ '';\<newline>'']
      else if field = ''Final'' then
        [''    mpc_model.'' @ key @ ''(finalTime)='' @ py_str X (get_base_data v) @ '';\<newline>'']
      else if field = ''Cyclic'' then
        [''    mpc_model.'' @ key @ ''(startTime)=mpc_model.'' @ key @ ''(finalTime);\<newline>'']
      else [])"

definition constraint_clauses :: "ext \<Rightarrow> variable dict dict \<Rightarrow> string list" where
  "constraint_clauses X cd =
     concat (map (\<lambda>(key, field, v). constraint_clause X key field v) (constraint_items cd))"

definition write_control_mop :: "ext \<Rightarrow> package \<Rightarrow> optimization \<Rightarrow> world \<Rightarrow> (package \<times> world) outcome" where
  "write_control_mop X self Optimization w =
     (let M = the_Model self w;
          path = split_dot (modelpath M);
          intro = [''\<newline>'',
                   ''  optimization '' @ last path @
                     ''_optimize (objective = (J(finalTime)), startTime=start_time, finalTime=final_time)\<newline>'',
                   ''    extends '' @ last path @ ''_initialize;\<newline>'',
                   ''    parameter Real start_time = 0;\<newline>'',
                   ''    parameter Real final_time = 86400;\<newline>''];
          names = filter (\<lambda>key. key \<notin> set (keys (control_data M))) (input_names M);
          new_inputs = constraint_inputs (constraint_data Optimization);
          w' = update_Model self
                 (\<lambda>m. m\<lparr>other_inputs := fold (\<lambda>(k, v) d. setitem d k (Some v))
                                           new_inputs (other_inputs m)\<rparr>) w;
          declared = map (\<lambda>(k, v). ''    input Real '' @ k @ '';\<newline>'') new_inputs;
          closing = [''  end '' @ last path @ ''_optimize;\<newline>'',
                     ''end '' @ hd path @ '';\<newline>'']
      in Inr (self\<lparr>opt_input_names := names @ map fst new_inputs,
                    mopfile := mopfile self @ intro @ declared @ [''  constraint\<newline>'']
                                 @ constraint_clauses X (constraint_data Optimization) @ closing\<rparr>,
              w'))"

text \<open>\<^verbatim>\<open>_write_parameter_estimate_mop\<close>: one modification per free parameter.\<close>

fun free_parameters :: "variable dict dict \<Rightarrow> string list \<Rightarrow> error + string list" where
  "free_parameters pd [] = Inr []"
| "free_parameters pd (key # rest) =
     (case getitem pd key of
        Inl e \<Rightarrow> Inl e
      | Inr entry \<Rightarrow>
         (case getitem entry ''Free'' of
            Inl e \<Rightarrow> Inl e
          | Inr v \<Rightarrow>
             (case truthy (get_base_data v) of
                Inl e \<Rightarrow> Inl e
              | Inr b \<Rightarrow>
                 (case free_parameters pd rest of
                    Inl e \<Rightarrow> Inl e
                  | Inr ks \<Rightarrow> Inr (if b then key # ks else ks)))))"

definition free_modification :: "ext \<Rightarrow> variable dict dict \<Rightarrow> string \<Rightarrow> error + string" where
  "free_modification X pd key =
     (case parameter_text X pd key ''Value'' of
        Inl e \<Rightarrow> Inl e
      | Inr val \<Rightarrow>
         (case parameter_text X pd key ''Minimum'' of
            Inl e \<Rightarrow> Inl e
          | Inr lo \<Rightarrow>
             (case parameter_text X pd key ''Maximum'' of
                Inl e \<Rightarrow> Inl e
              | Inr hi \<Rightarrow>
                  Inr (''mpc_model.'' @ key @ ''(free=true, initialGuess='' @ val
                       @ '', min='' @ lo @ '', max='' @ hi @ '')''))))"

fun free_lines :: "ext \<Rightarrow> variable dict dict \<Rightarrow> string \<Rightarrow> nat \<Rightarrow> nat \<Rightarrow> string list \<Rightarrow> error + string list" where
  "free_lines X pd cls i n [] = Inr []"
| "free_lines X pd cls i n (key # rest) =
     (case free_modification X pd key of
        Inl e \<Rightarrow> Inl e
      | Inr txt \<Rightarrow>
         (case free_lines X pd cls (i + 1) n rest of
            Inl e \<Rightarrow> Inl e
          | Inr ls \<Rightarrow>
              Inr ((if i = 1 then ''    extends '' @ cls @ ''_initialize ('' @ txt @ '',\<newline>''
                    else if i = n then ''      '' @ txt @ ''));\<newline>''
                    else ''      '' @ txt @ '',\<newline>'') # ls)))"

definition write_parameter_estimate_mop :: "ext \<Rightarrow> package \<Rightarrow> world \<Rightarrow> (package \<times> world) outcome" where
  "write_parameter_estimate_mop X self w =
     (let M = the_Model self w;
          path = split_dot (modelpath M);
          intro = [''\<newline>'',
                   ''optimization '' @ last path @
                     ''_optimize (startTime=start_time, finalTime=final_time)\<newline>'',
                   ''    parameter Real start_time = 0;\<newline>'',
                   ''    parameter Real final_time = 86400;\<newline>'']
      in try_pure (self, w) (free_parameters (parameter_data M) (keys (parameter_data M)))
           (\<lambda>free.
              try_pure (self, w) (free_lines X (parameter_data M) (last path) 1 (length free) free)
                (\<lambda>ls. Inr (self\<lparr>mopfile := mopfile self @ intro @ ls @
                                  [''end '' @ last path @ ''_optimize;\<newline>'',
                                   ''end '' @ hd path @ '';\<newline>'']\<rparr>, w))))"

text \<open>
  \<^verbatim>\<open>_compile_transfer_problem\<close>: the initialization model is compiled, then the
  optimization problem is transferred from the same file.
\<close>

definition compile_transfer_problem :: "ext \<Rightarrow> package \<Rightarrow> world \<Rightarrow> (package \<times> world) outcome" where
  "compile_transfer_problem X self w =
     (let w1 = emit (CompileFmu (mopmodelpath self @ ''_initialize'')) w
      in try_pure (self, w1) (compile_fmu X (mopmodelpath self @ ''_initialize'') (mopfile self))
           (\<lambda>path.
              let w2 = emit (Transfer (mopmodelpath self @ ''_optimize'')) w1
              in (case transfer_optimization_problem X (mopmodelpath self @ ''_optimize'') (mopfile self) of
                    Some e \<Rightarrow> Inl (e, (self, w2))
                  | None \<Rightarrow>
                      Inr (self\<lparr>fmupath := path,
                                 opt_problem := Some \<lparr>op_class = mopmodelpath self @ ''_optimize'',
                                                       op_mop = mopfile self,
                                                       op_values = []\<rparr>\<rparr>, w2))))"

section \<open>Setting a package up\<close>

text \<open>A package object before its constructor has assigned anything.\<close>

definition new_package :: "package_kind \<Rightarrow> package" where
  "new_package k =
     \<lparr>kind = k, pk_Model = 0, objective = [], extra_inputs = [], moppath = [], mopfile = [],
      mopmodelpath = [], opt_input_names = [], fmupath = [], opt_problem = None,
      opt_options = None, measurement_variable_list = None, pk_parameter_data = None,
      pk_input_names = [], pk_measurements = [], pk_start_time_utc = 0, pk_final_time_utc = 0,
      pk_elapsed_seconds = 0, sim_opts_ncp = None, res = None, res_init = None,
      input_object = None, pk_external_data = None, res_opt = None\<rparr>"

text \<open>\<^verbatim>\<open>_setup_jmodelica\<close> of the three problem types.\<close>

definition setup_jmodelica ::
  "ext \<Rightarrow> problem \<Rightarrow> package \<Rightarrow> optimization \<Rightarrow> world \<Rightarrow> (package \<times> world) outcome" where
  "setup_jmodelica X p self Optimization w =
     (case p of
        EnergyMin \<Rightarrow>
          and_then
            (initalize_mop X
               (self\<lparr>pk_Model := Model Optimization,
                      objective := ''mpc_model.'' @ objective_variable Optimization,
                      extra_inputs := []\<rparr>) w)
            (\<lambda>(s1, w1). and_then (write_control_mop X s1 Optimization w1)
               (\<lambda>(s2, w2). compile_transfer_problem X s2 w2))
      | EnergyCostMin \<Rightarrow>
          and_then
            (initalize_mop X
               (self\<lparr>pk_Model := Model Optimization,
                      objective := ''mpc_model.'' @ objective_variable Optimization @ ''*pi_e'',
                      extra_inputs := [(''pi_e'', None)]\<rparr>) w)
            (\<lambda>(s1, w1). and_then (write_control_mop X s1 Optimization w1)
               (\<lambda>(s2, w2). compile_transfer_problem X s2 w2))
      | ParameterEstimate \<Rightarrow>
          and_then
            (initalize_mop X
               (self\<lparr>pk_Model := Model Optimization,
                      objective := ''0'',
                      extra_inputs := []\<rparr>) w)
            (\<lambda>(s1, w1). and_then (write_parameter_estimate_mop X s1 w1)
               (\<lambda>(s2, w2). compile_transfer_problem X s2 w2)))"

text \<open>
  \<^verbatim>\<open>JModelica.__init__\<close> and \<^verbatim>\<open>Python.__init__\<close> have the same body: the problem type
  sets the package up, then the default options of the transferred problem become the
  option store.
\<close>

text \<open>
  Modelled from the spec: the class \<^verbatim>\<open>Python\<close> calls \<^verbatim>\<open>_initalize_mop\<close>,
  \<^verbatim>\<open>_write_control_mop\<close>, \<^verbatim>\<open>_compile_transfer_problem\<close>, \<^verbatim>\<open>_simulate_initial\<close>,
  \<^verbatim>\<open>_create_external_data\<close> and \<^verbatim>\<open>_get_control_results\<close> on itself without defining them;
  they can only come from its base class \<^verbatim>\<open>utility._FMU\<close>, which is not among the sources.
  The specification has both backends share the initial-guess simulator, the external-data
  builder and the result extractor, so the two kinds of package share these functions here.
\<close>

definition Package_init ::
  "ext \<Rightarrow> package_kind \<Rightarrow> optimization \<Rightarrow> world \<Rightarrow> (package \<times> world) outcome" where
  "Package_init X k Optimization w =
     and_then (setup_jmodelica X (problem_type Optimization) (new_package k) Optimization w)
       (\<lambda>(self, w1).
          case opt_problem self of
            None \<Rightarrow> Inl (AttributeError ''opt_problem'', (self, w1))
          | Some prob \<Rightarrow>
              try_pure (self, w1)
                (Package_set_optimization_options self (optimize_options X prob) True)
                (\<lambda>s. Inr (s, w1)))"

section \<open>Solving\<close>

text \<open>
  \<^verbatim>\<open>_simulate_initial\<close>.  The attributes \<^verbatim>\<open>weather_data\<close>, \<^verbatim>\<open>internal_data\<close> and
  \<^verbatim>\<open>control_data\<close> that it assigns are the Model's own dictionaries and stay there.  Each
  entry of \<^verbatim>\<open>self.measurements\<close> is the Model's entry under the unprefixed key, so the
  package keeps the key it refers to.
\<close>

definition simulate_initial ::
  "ext \<Rightarrow> package \<Rightarrow> optimization \<Rightarrow> world \<Rightarrow> (package \<times> world) outcome" where
  "simulate_initial X self Optimization w =
     (let M = the_Model self w;
          self1 = (if problem_type Optimization = ParameterEstimate
                   then self\<lparr>opt_input_names := input_names M\<rparr> else self);
          self2 = self1\<lparr>pk_input_names := input_names M,
                        pk_measurements := map (\<lambda>key. (''mpc_model.'' @ key, key)) (keys (measurements M)),
                        pk_start_time_utc := start_time_utc M,
                        pk_final_time_utc := final_time_utc M,
                        pk_elapsed_seconds := elapsed_seconds M\<rparr>;
          w1 = emit (Simulate (pk_elapsed_seconds self2)) w
      in try_pure (self2, w1) (simulate_fmu X self2 M)
           (\<lambda>(r, ncp). Inr (self2\<lparr>sim_opts_ncp := Some ncp, res := Some r, res_init := Some r\<rparr>, w1)))"

text \<open>
  Modelled from the spec: \<^verbatim>\<open>utility._FMU._add_simtime_column\<close> is not among the sources;
  the specification pairs the measured sub-series ``with elapsed-time stamps'', here the
  seconds elapsed since the first sample of the sub-series.
\<close>

definition add_simtime_column :: "(real \<times> real) list \<Rightarrow> (real \<times> real) list" where
  "add_simtime_column df = map (\<lambda>(t, y). (t - fst (hd df), y)) df"

fun quad_pen_of ::
  "model \<Rightarrow> string list \<Rightarrow> (real list \<times> real list) dict \<Rightarrow> error + (real list \<times> real list) dict" where
  "quad_pen_of M [] qp = Inr qp"
| "quad_pen_of M (key # rest) qp =
     (case getitem (measurements M) key of
        Inl e \<Rightarrow> Inl e
      | Inr entry \<Rightarrow>
         (case getitem entry ''Measured'' of
            Inl e \<Rightarrow> Inl e
          | Inr v \<Rightarrow>
             (case get_base_data v of
                Scalar r \<Rightarrow> Inl (TypeError ''a scalar cannot be sliced'')
              | Series ts \<Rightarrow>
                  let df = filter (\<lambda>(t, y). start_time M \<le> t \<and> t \<le> final_time M) ts;
                      df_simtime = add_simtime_column df
                  in quad_pen_of M rest
                       (setitem qp (''mpc_model.'' @ key) (map fst df_simtime, map snd df_simtime)))))"

definition column :: "real list list \<Rightarrow> nat \<Rightarrow> error + real list" where
  "column cols i = (if i < length cols then Inr (cols ! i) else Inl (IndexError ''index out of bounds''))"

fun eliminated_of ::
  "real list list \<Rightarrow> string list \<Rightarrow> nat \<Rightarrow> (real list \<times> real list) dict \<Rightarrow> error + (real list \<times> real list) dict" where
  "eliminated_of cols [] i el = Inr el"
| "eliminated_of cols (key # rest) i el =
     (case column cols 0 of
        Inl e \<Rightarrow> Inl e
      | Inr t \<Rightarrow>
         (case column cols i of
            Inl e \<Rightarrow> Inl e
          | Inr c \<Rightarrow> eliminated_of cols rest (i + 1) (setitem el key (t, c))))"

definition diag_ones :: "nat \<Rightarrow> real list list" where
  "diag_ones n = map (\<lambda>i. map (\<lambda>j. if i = j then 1 else 0) [0..<n]) [0..<n]"

definition create_external_data :: "package \<Rightarrow> world \<Rightarrow> (package \<times> world) outcome" where
  "create_external_data self w =
     (let M = the_Model self w
      in try_pure (self, w)
           (case measurement_variable_list self of
              Some l \<Rightarrow> (case quad_pen_of M l [] of Inl e \<Rightarrow> Inl e | Inr qp \<Rightarrow> Inr (qp, length l))
            | None \<Rightarrow> Inr ([], 0))
           (\<lambda>(qp, N_mea).
              try_pure (self, w)
                (case input_object self of
                   Some (names, cols) \<Rightarrow> eliminated_of cols names 1 []
                 | None \<Rightarrow> Inr [])
                (\<lambda>el. Inr (self\<lparr>pk_external_data :=
                                    Some \<lparr>Q = diag_ones N_mea, quad_pen = qp, eliminated = el\<rparr>\<rparr>, w))))"

text \<open>\<^verbatim>\<open>opt_problem.set(name, value)\<close>.\<close>

definition problem_set :: "string \<Rightarrow> basedata \<Rightarrow> package \<Rightarrow> world \<Rightarrow> (package \<times> world) outcome" where
  "problem_set name v self w =
     (case opt_problem self of
        None \<Rightarrow> Inl (AttributeError ''opt_problem'', (self, w))
      | Some prob \<Rightarrow>
          Inr (self\<lparr>opt_problem := Some (prob\<lparr>op_values := setitem (op_values prob) name v\<rparr>)\<rparr>,
               emit (ProblemSet name v) w))"

fun set_parameters ::
  "variable dict dict \<Rightarrow> string list \<Rightarrow> package \<Rightarrow> world \<Rightarrow> (package \<times> world) outcome" where
  "set_parameters pd [] self w = Inr (self, w)"
| "set_parameters pd (key # rest) self w =
     (case getitem pd key of
        Inl e \<Rightarrow> Inl (e, (self, w))
      | Inr entry \<Rightarrow>
         (case getitem entry ''Value'' of
            Inl e \<Rightarrow> Inl (e, (self, w))
          | Inr v \<Rightarrow>
             (case problem_set key (get_base_data v) self w of
                Inl es \<Rightarrow> Inl es
              | Inr (s, w1) \<Rightarrow> set_parameters pd rest s w1)))"

text \<open>
  The four options that \<^verbatim>\<open>_solve\<close> sets itself, from the external data it has just
  built, the initial simulation and the simulation options.
\<close>

definition auto_options :: "pyval dict \<Rightarrow> external_data \<Rightarrow> result \<Rightarrow> int \<Rightarrow> pyval dict" where
  "auto_options opts ed r n =
     setitem (setitem (setitem (setitem opts
       ''external_data'' (PExternalData ed))
       ''init_traj'' (PResult r))
       ''nominal_traj'' (PResult r))
       ''n_e'' (PInt n)"

text \<open>
  \<^verbatim>\<open>JModelica._solve\<close> and \<^verbatim>\<open>Python._solve\<close> have the same body.  An attribute is read
  when its statement is reached, so a missing one raises after the assignments before it.
\<close>

definition set_auto_options :: "package \<Rightarrow> world \<Rightarrow> (package \<times> world) outcome" where
  "set_auto_options self w =
     (case pk_external_data self of
        None \<Rightarrow> Inl (AttributeError ''external_data'', (self, w))
      | Some ed \<Rightarrow>
         (case opt_options self of
            None \<Rightarrow> Inl (AttributeError ''opt_options'', (self, w))
          | Some opts \<Rightarrow>
             (case res_init self of
                None \<Rightarrow>
                  Inl (AttributeError ''res_init'',
                       (self\<lparr>opt_options := Some (setitem opts ''external_data'' (PExternalData ed))\<rparr>, w))
              | Some r \<Rightarrow>
                 (case sim_opts_ncp self of
                    None \<Rightarrow>
                      Inl (AttributeError ''_sim_opts'',
                           (self\<lparr>opt_options := Some
                              (setitem (setitem (setitem opts
                                 ''external_data'' (PExternalData ed))
                                 ''init_traj'' (PResult r))
                                 ''nominal_traj'' (PResult r))\<rparr>, w))
                  | Some n \<Rightarrow> Inr (self\<lparr>opt_options := Some (auto_options opts ed r n)\<rparr>, w)))))"

definition push_parameters :: "package \<Rightarrow> world \<Rightarrow> (package \<times> world) outcome" where
  "push_parameters self w =
     (case pk_parameter_data self of
        Some pd \<Rightarrow> set_parameters pd (keys pd) self w
      | None \<Rightarrow> Inr (self, w))"

definition run_optimize :: "ext \<Rightarrow> package \<Rightarrow> world \<Rightarrow> (package \<times> world) outcome" where
  "run_optimize X self w =
     (case opt_problem self of
        None \<Rightarrow> Inl (AttributeError ''opt_problem'', (self, w))
      | Some prob \<Rightarrow>
         (case opt_options self of
            None \<Rightarrow> Inl (AttributeError ''opt_options'', (self, w))
          | Some opts \<Rightarrow>
              try_pure (self, emit (ProblemOptimize opts) w) (nlp_optimize X prob opts)
                (\<lambda>ro. Inr (self\<lparr>res_opt := Some ro\<rparr>,
                          emit (OptimizeReturned ro) (emit (ProblemOptimize opts) w)))))"

definition solve :: "ext \<Rightarrow> package \<Rightarrow> world \<Rightarrow> (package \<times> world) outcome" where
  "solve X self w =
     and_then
       (create_external_data
          (self\<lparr>input_object := create_input_object X self (the_Model self w)\<rparr>) w)
       (\<lambda>(s1, w1). and_then (set_auto_options s1 w1)
       (\<lambda>(s2, w2). and_then (push_parameters s2 w2)
       (\<lambda>(s3, w3). and_then (problem_set ''start_time'' (Scalar 0) s3 w3)
       (\<lambda>(s4, w4). and_then
                      (problem_set ''final_time'' (Scalar (elapsed_seconds (the_Model s4 w4))) s4 w4)
       (\<lambda>(s5, w5). run_optimize X s5 w5)))))"

section \<open>Writing the results back\<close>

text \<open>
  The series of one variable of the result: its samples against the time vector, shifted
  to the start of the horizon, with the unit of the variable or \<^verbatim>\<open>units.unit1\<close>.
\<close>

definition result_series :: "ext \<Rightarrow> package \<Rightarrow> result option \<Rightarrow> string \<Rightarrow> error + variable" where
  "result_series X self ro key =
     (case ro of
        None \<Rightarrow> Inl (AttributeError ''res_opt'')
      | Some r \<Rightarrow>
         (case getitem (trajectories r) (''mpc_model.'' @ key) of
            Inl e \<Rightarrow> Inl e
          | Inr data \<Rightarrow>
             (case getitem (trajectories r) ''time'' of
                Inl e \<Rightarrow> Inl e
              | Inr time \<Rightarrow>
                  if length data \<noteq> length time
                  then Inl (ValueError ''Length of passed values does not match the index'')
                  else Inr (Timeseries key
                              (zip (map (\<lambda>t. pk_start_time_utc self + t) time) data)
                              (case unit_class X (''mpc_model.'' @ key) of
                                 None \<Rightarrow> unit1
                               | Some u \<Rightarrow> u)))))"

fun write_controls ::
  "ext \<Rightarrow> package \<Rightarrow> nat \<Rightarrow> string list \<Rightarrow> world \<Rightarrow> world outcome" where
  "write_controls X self ref [] w = Inr w"
| "write_controls X self ref (key # rest) w =
     (case result_series X self (res_opt self) key of
        Inl e \<Rightarrow> Inl (e, w)
      | Inr v \<Rightarrow>
          write_controls X self ref rest
            (w\<lparr>store := (store w)
                 (ref := (store w ref)\<lparr>control_data := setitem (control_data (store w ref)) key v\<rparr>)\<rparr>))"

fun write_measurements ::
  "ext \<Rightarrow> package \<Rightarrow> nat \<Rightarrow> string list \<Rightarrow> world \<Rightarrow> world outcome" where
  "write_measurements X self ref [] w = Inr w"
| "write_measurements X self ref (key # rest) w =
     (case result_series X self (res_opt self) key of
        Inl e \<Rightarrow> Inl (e, w)
      | Inr v \<Rightarrow>
         (case getitem (measurements (store w ref)) key of
            Inl e \<Rightarrow> Inl (e, w)
          | Inr entry \<Rightarrow>
              write_measurements X self ref rest
                (w\<lparr>store := (store w)
                     (ref := (store w ref)\<lparr>measurements :=
                        setitem (measurements (store w ref)) key (setitem entry ''Simulated'' v)\<rparr>)\<rparr>)))"

definition get_control_results ::
  "ext \<Rightarrow> package \<Rightarrow> optimization \<Rightarrow> world \<Rightarrow> (package \<times> world) outcome" where
  "get_control_results X self Optimization w =
     (case write_controls X self (Model Optimization) (keys (control_data (the_Model self w))) w of
        Inl (e, w1) \<Rightarrow> Inl (e, (self, w1))
      | Inr w1 \<Rightarrow>
         (case write_measurements X self (Model Optimization)
                 (keys (measurements (store w1 (Model Optimization)))) w1 of
            Inl (e, w2) \<Rightarrow> Inl (e, (self, w2))
          | Inr w2 \<Rightarrow> Inr (self, w2)))"

fun write_parameters ::
  "ext \<Rightarrow> package \<Rightarrow> nat \<Rightarrow> string list \<Rightarrow> world \<Rightarrow> world outcome" where
  "write_parameters X self ref [] w = Inr w"
| "write_parameters X self ref (key # rest) w =
     (case getitem (parameter_data (store w ref)) key of
        Inl e \<Rightarrow> Inl (e, w)
      | Inr entry \<Rightarrow>
         (case getitem entry ''Free'' of
            Inl e \<Rightarrow> Inl (e, w)
          | Inr free \<Rightarrow>
             (case truthy (get_base_data free) of
                Inl e \<Rightarrow> Inl (e, w)
              | Inr False \<Rightarrow> write_parameters X self ref rest w
              | Inr True \<Rightarrow>
                 (case res_opt self of
                    None \<Rightarrow> Inl (AttributeError ''res_opt'', w)
                  | Some r \<Rightarrow>
                     (case getitem (initials r) (''mpc_model.'' @ key) of
                        Inl e \<Rightarrow> Inl (e, w)
                      | Inr data \<Rightarrow>
                         (case getitem entry ''Value'' of
                            Inl e \<Rightarrow> Inl (e, w)
                          | Inr v \<Rightarrow>
                              write_parameters X self ref rest
                                (w\<lparr>store := (store w)
                                     (ref := (store w ref)\<lparr>parameter_data :=
                                        setitem (parameter_data (store w ref)) key
                                          (setitem entry ''Value''
                                             (v\<lparr>var_unit := (case unit_class X (''mpc_model.'' @ key) of
                                                                 None \<Rightarrow> unit1 | Some u \<Rightarrow> u),
                                                 var_data := Scalar data\<rparr>))\<rparr>)\<rparr>)))))))"

definition get_parameter_results ::
  "ext \<Rightarrow> package \<Rightarrow> optimization \<Rightarrow> world \<Rightarrow> (package \<times> world) outcome" where
  "get_parameter_results X self Optimization w =
     (case write_parameters X self (Model Optimization)
             (keys (parameter_data (store w (Model Optimization)))) w of
        Inl (e, w1) \<Rightarrow> Inl (e, (self, w1))
      | Inr w1 \<Rightarrow> Inr (self, w1))"

section \<open>The three solves of each package\<close>

definition JModelica_energymin ::
  "ext \<Rightarrow> package \<Rightarrow> optimization \<Rightarrow> world \<Rightarrow> (package \<times> world) outcome" where
  "JModelica_energymin X self Optimization w =
     and_then (simulate_initial X self Optimization w)
       (\<lambda>(s1, w1). and_then (solve X s1 w1)
       (\<lambda>(s2, w2). get_control_results X s2 Optimization w2))"

definition JModelica_energycostmin ::
  "ext \<Rightarrow> package \<Rightarrow> optimization \<Rightarrow> variable dict \<Rightarrow> world \<Rightarrow> (package \<times> world) outcome" where
  "JModelica_energycostmin X self Optimization price w =
     try_pure (self, w) (getitem price ''pi_e'')
       (\<lambda>pi_e.
          and_then
            (simulate_initial X self Optimization
               (update_Model self
                  (\<lambda>m. m\<lparr>other_inputs := setitem (other_inputs m) ''pi_e'' (Some pi_e)\<rparr>) w))
            (\<lambda>(s1, w1). and_then (solve X s1 w1)
            (\<lambda>(s2, w2). get_control_results X s2 Optimization w2)))"

definition JModelica_parameterestimate ::
  "ext \<Rightarrow> package \<Rightarrow> optimization \<Rightarrow> string list \<Rightarrow> world \<Rightarrow> (package \<times> world) outcome" where
  "JModelica_parameterestimate X self Optimization l w =
     and_then (simulate_initial X (self\<lparr>measurement_variable_list := Some l\<rparr>) Optimization w)
       (\<lambda>(s1, w1). and_then (solve X s1 w1)
       (\<lambda>(s2, w2). get_parameter_results X s2 Optimization w2))"

definition Python_energymin ::
  "ext \<Rightarrow> package \<Rightarrow> optimization \<Rightarrow> world \<Rightarrow> (package \<times> world) outcome" where
  "Python_energymin X self Optimization w =
     and_then (simulate_initial X self Optimization w)
       (\<lambda>(s1, w1). and_then (solve X s1 w1)
       (\<lambda>(s2, w2). get_control_results X s2 Optimization w2))"

text \<open>The bodies of these two methods are \<^verbatim>\<open>pass\<close>.\<close>

definition Python_energycostmin ::
  "ext \<Rightarrow> package \<Rightarrow> optimization \<Rightarrow> variable dict \<Rightarrow> world \<Rightarrow> (package \<times> world) outcome" where
  "Python_energycostmin X self Optimization price w = Inr (self, w)"

definition Python_parameterestimate ::
  "ext \<Rightarrow> package \<Rightarrow> optimization \<Rightarrow> string list \<Rightarrow> world \<Rightarrow> (package \<times> world) outcome" where
  "Python_parameterestimate X self Optimization l w = Inr (self, w)"

text \<open>The call of a method on the package, whichever its class.\<close>

definition Package_energymin ::
  "ext \<Rightarrow> package \<Rightarrow> optimization \<Rightarrow> world \<Rightarrow> (package \<times> world) outcome" where
  "Package_energymin X self Optimization w =
     (case kind self of
        JModelica \<Rightarrow> JModelica_energymin X self Optimization w
      | Python \<Rightarrow> Python_energymin X self Optimization w)"

definition Package_energycostmin ::
  "ext \<Rightarrow> package \<Rightarrow> optimization \<Rightarrow> variable dict \<Rightarrow> world \<Rightarrow> (package \<times> world) outcome" where
  "Package_energycostmin X self Optimization price w =
     (case kind self of
        JModelica \<Rightarrow> JModelica_energycostmin X self Optimization price w
      | Python \<Rightarrow> Python_energycostmin X self Optimization price w)"

definition Package_parameterestimate ::
  "ext \<Rightarrow> package \<Rightarrow> optimization \<Rightarrow> string list \<Rightarrow> world \<Rightarrow> (package \<times> world) outcome" where
  "Package_parameterestimate X self Optimization l w =
     (case kind self of
        JModelica \<Rightarrow> JModelica_parameterestimate X self Optimization l w
      | Python \<Rightarrow> Python_parameterestimate X self Optimization l w)"

section \<open>The Optimization object\<close>

text \<open>The keyword arguments of \<^verbatim>\<open>optimize\<close> that the problem types read.\<close>

record kwargs =
  price_data :: "variable dict option"
  kw_measurement_variable_list :: "string list option"

text \<open>
  The package of the \<^verbatim>\<open>Optimization\<close> object is the object the method ran on: what the
  method did to it stays, also when the method raised.
\<close>

definition with_package ::
  "optimization \<Rightarrow> (package \<times> world) outcome \<Rightarrow> (optimization \<times> world) outcome" where
  "with_package opt r =
     (case r of
        Inl (e, (pk, w)) \<Rightarrow> Inl (e, (opt\<lparr>package_type := pk\<rparr>, w))
      | Inr (pk, w) \<Rightarrow> Inr (opt\<lparr>package_type := pk\<rparr>, w))"

text \<open>\<^verbatim>\<open>_optimize\<close> of the three problem types.\<close>

definition Problem_optimize ::
  "ext \<Rightarrow> optimization \<Rightarrow> kwargs \<Rightarrow> world \<Rightarrow> (optimization \<times> world) outcome" where
  "Problem_optimize X Optimization kw w =
     (case problem_type Optimization of
        EnergyMin \<Rightarrow>
          with_package Optimization
            (Package_energymin X (package_type Optimization) Optimization w)
      | EnergyCostMin \<Rightarrow>
          (case price_data kw of
             None \<Rightarrow> Inl (KeyError ''price_data'', (Optimization, w))
           | Some price \<Rightarrow>
               with_package Optimization
                 (Package_energycostmin X (package_type Optimization) Optimization price w))
      | ParameterEstimate \<Rightarrow>
          (case kw_measurement_variable_list kw of
             None \<Rightarrow> Inl (KeyError ''measurement_variable_list'', (Optimization, w))
           | Some l \<Rightarrow>
               with_package Optimization
                 (Package_parameterestimate X (package_type Optimization) Optimization l w)))"

text \<open>
  Modelled from the spec: \<^verbatim>\<open>Model._set_time_interval\<close> belongs to \<^verbatim>\<open>mpcpy.models\<close>, which
  is not among the sources; the specification has \<^verbatim>\<open>optimize\<close> set ``the model's active
  time window''.  Times are seconds, and the elapsed seconds are the length of the window.
\<close>

definition set_time_interval :: "real \<Rightarrow> real \<Rightarrow> model \<Rightarrow> model" where
  "set_time_interval t0 t1 m =
     m\<lparr>start_time := t0, final_time := t1, start_time_utc := t0, final_time_utc := t1,
       elapsed_seconds := t1 - t0\<rparr>"

definition optimize ::
  "ext \<Rightarrow> real \<Rightarrow> real \<Rightarrow> kwargs \<Rightarrow> optimization \<Rightarrow> world \<Rightarrow> (optimization \<times> world) outcome" where
  "optimize X t0 t1 kw Optimization w =
     Problem_optimize X Optimization kw
       (w\<lparr>store := (store w)
            (Model Optimization := set_time_interval t0 t1 (store w (Model Optimization)))\<rparr>)"

text \<open>
  The constructor of a package runs on a new object; when it raises, the object is dropped
  and the \<^verbatim>\<open>Optimization\<close> object keeps the package it had.
\<close>

definition rebuild_package ::
  "ext \<Rightarrow> package_kind \<Rightarrow> optimization \<Rightarrow> world \<Rightarrow> (optimization \<times> world) outcome" where
  "rebuild_package X k Optimization w =
     (case Package_init X k Optimization w of
        Inl (e, (pk, w1)) \<Rightarrow> Inl (e, (Optimization, w1))
      | Inr (pk, w1) \<Rightarrow> Inr (Optimization\<lparr>package_type := pk\<rparr>, w1))"

definition set_problem_type ::
  "ext \<Rightarrow> problem \<Rightarrow> optimization \<Rightarrow> world \<Rightarrow> (optimization \<times> world) outcome" where
  "set_problem_type X p Optimization w =
     rebuild_package X (kind (package_type Optimization)) (Optimization\<lparr>problem_type := p\<rparr>) w"

definition set_package_type ::
  "ext \<Rightarrow> package_kind \<Rightarrow> optimization \<Rightarrow> world \<Rightarrow> (optimization \<times> world) outcome" where
  "set_package_type X k Optimization w = rebuild_package X k Optimization w"

definition get_optimization_options :: "optimization \<Rightarrow> error + pyval dict" where
  "get_optimization_options Optimization =
     Package_get_optimization_options (package_type Optimization)"

definition set_optimization_options :: "optimization \<Rightarrow> pyval dict \<Rightarrow> error + optimization" where
  "set_optimization_options Optimization opts =
     (case Package_set_optimization_options (package_type Optimization) opts False of
        Inl e \<Rightarrow> Inl e
      | Inr pk \<Rightarrow> Inr (Optimization\<lparr>package_type := pk\<rparr>))"

definition get_optimization_statistics ::
  "optimization \<Rightarrow> error + (string \<times> int \<times> real \<times> real)" where
  "get_optimization_statistics Optimization =
     Package_get_optimization_statistics (package_type Optimization)"

text \<open>
  The constructor \<^verbatim>\<open>Optimization.__init__\<close>; the keyword arguments \<^verbatim>\<open>constraint_data\<close>,
  \<^verbatim>\<open>opt_package\<close> and \<^verbatim>\<open>algorithm\<close> are optional.
\<close>

definition Optimization_init ::
  "ext \<Rightarrow> nat \<Rightarrow> problem \<Rightarrow> package_kind \<Rightarrow> string \<Rightarrow> variable dict dict option \<Rightarrow>
   string option \<Rightarrow> string option \<Rightarrow> world \<Rightarrow> (optimization \<times> world) outcome" where
  "Optimization_init X ref p k ov cd pkg alg w =
     (case rebuild_package X k
             \<lparr>Model = ref,
              constraint_data = (case cd of Some c \<Rightarrow> c | None \<Rightarrow> []),
              objective_variable = ov,
              problem_type = p,
              package_type = new_package k,
              solver_package = None,
              algorithm = None\<rparr> w of
        Inl ew \<Rightarrow> Inl ew
      | Inr (opt, w1) \<Rightarrow> Inr (opt\<lparr>solver_package := pkg, algorithm := alg\<rparr>, w1))"

section \<open>The cost function of the derivative-free search\<close>











section \<open>The meaning of a constraint clause\<close>

text \<open>
  What the specification says each kind of constraint compiles to, as a small syntax of
  clauses, and the text of a clause in the \<^verbatim>\<open>constraint\<close> section of the \<^verbatim>\<open>.mop\<close> file.
\<close>

datatype constraint_kind =
    LowerBound
  | UpperBound
  | LowerBoundOnDerivative
  | UpperBoundOnDerivative
  | InitialValue
  | FinalValue
  | Cyclic

definition kind_of_field :: "string \<Rightarrow> constraint_kind option" where
  "kind_of_field field =
     (if field = ''GTE'' then Some LowerBound
      else if field = ''LTE'' then Some UpperBound
      else if field = ''dGTE'' then Some LowerBoundOnDerivative
      else if field = ''dLTE'' then Some UpperBoundOnDerivative
      else if field = ''Initial'' then Some InitialValue
      else if field = ''Final'' then Some FinalValue
      else if field = ''Cyclic'' then Some Cyclic
      else None)"

datatype expr =
    Value string
  | Derivative string
  | AtStart string
  | AtFinal string
  | Input string
  | Literal basedata

datatype clause = Geq expr expr | Leq expr expr | Equal expr expr

fun spec_clause :: "constraint_kind \<Rightarrow> string \<Rightarrow> string \<Rightarrow> variable \<Rightarrow> clause" where
  "spec_clause LowerBound key bound v = Geq (Value key) (Input bound)"
| "spec_clause UpperBound key bound v = Leq (Value key) (Input bound)"
| "spec_clause LowerBoundOnDerivative key bound v = Geq (Derivative key) (Input bound)"
| "spec_clause UpperBoundOnDerivative key bound v = Leq (Derivative key) (Input bound)"
| "spec_clause InitialValue key bound v = Equal (AtStart key) (Literal (get_base_data v))"
| "spec_clause FinalValue key bound v = Equal (AtFinal key) (Literal (get_base_data v))"
| "spec_clause Cyclic key bound v = Equal (AtStart key) (AtFinal key)"


fun render_expr :: "ext \<Rightarrow> expr \<Rightarrow> string" where
  "render_expr X (Value k) = ''mpc_model.'' @ k"
| "render_expr X (Derivative k) = ''der(mpc_model.'' @ k @ '')''"
| "render_expr X (AtStart k) = ''mpc_model.'' @ k @ ''(startTime)''"
| "render_expr X (AtFinal k) = ''mpc_model.'' @ k @ ''(finalTime)''"
| "render_expr X (Input n) = n"
| "render_expr X (Literal d) = py_str X d"

fun render :: "ext \<Rightarrow> clause \<Rightarrow> string" where
  "render X (Geq a b) = ''    '' @ render_expr X a @ '' >= '' @ render_expr X b @ '';\<newline>''"
| "render X (Leq a b) = ''    '' @ render_expr X a @ '' <= '' @ render_expr X b @ '';\<newline>''"
| "render X (Equal a b) = ''    '' @ render_expr X a @ ''='' @ render_expr X b @ '';\<newline>''"



section \<open>What a call leaves behind\<close>

text \<open>
  The data of the Models that the result extraction writes: the control data, the
  measurements and the parameter data of the Model at each reference.
\<close>

definition model_data :: "world \<Rightarrow> nat \<Rightarrow> variable dict \<times> variable dict dict \<times> variable dict dict" where
  "model_data w ref =
     (control_data (store w ref), measurements (store w ref), parameter_data (store w ref))"

text \<open>
  Three relations between the world before and after a call, used to state and prove the
  properties of a solve.  A call was quiet when it left the data of every Model as they
  were and no \<^verbatim>\<open>opt_problem.optimize\<close> returned during it; it solved when its trace ends
  with the return of one \<^verbatim>\<open>opt_problem.optimize\<close>, the only one of the call; and its
  events are in the order of a solve when they are the initial simulation, the parameter
  settings, the two horizon bounds and the numerical solve, called with the four automatic
  options set from the initial simulation.
\<close>

definition quiet :: "world \<Rightarrow> world \<Rightarrow> bool" where
  "quiet w w' =
     (model_data w' = model_data w
      \<and> (\<exists>evs. trace w' = trace w @ evs \<and> (\<forall>ro. OptimizeReturned ro \<notin> set evs)))"



section \<open>Example objects\<close>

text \<open>
  A model, constraints and collaborators in the shape of the unit tests of the repository
  (\<^verbatim>\<open>Simple.RC\<close> with the control \<^verbatim>\<open>q_flow\<close> and the measurement \<^verbatim>\<open>T_db\<close>), on which the
  theorems below are instantiated.
\<close>

definition r0 :: result where
  "r0 = \<lparr>trajectories = [(''time'', [0, 86400]), (''mpc_model.q_flow'', [0, 0]),
                          (''mpc_model.T_db'', [293, 293])],
         initials = [], solver_statistics = (''Solve_Succeeded'', 10, 0, 1)\<rparr>"

definition opts0 :: "pyval dict" where
  "opts0 = [(''n_e'', PInt 50), (''init_traj'', PNone), (''nominal_traj'', PNone),
            (''external_data'', PNone), (''IPOPT_options'', PDict [(''max_iter'', PInt 3000)])]"

definition X0 :: ext where
  "X0 = \<lparr>py_str = (\<lambda>d. ''294.15''), read_mo = (\<lambda>path. []),
          compile_fmu = (\<lambda>cls mop. Inr ''Simple_RC_initialize.fmu''),
          transfer_optimization_problem = (\<lambda>cls mop. None),
          optimize_options = (\<lambda>prob. opts0),
          simulate_fmu = (\<lambda>self M. Inr (r0, 500)),
          create_input_object = (\<lambda>self M. None),
          nlp_optimize = (\<lambda>prob opts. Inr r0),
          unit_class = (\<lambda>name. None)\<rparr>"

definition M0 :: model where
  "M0 = \<lparr>mopath = ''Simple.mo'', modelpath = ''Simple.RC'', libraries = [],
          input_names = [''q_flow''], other_inputs = [], weather_data = [], internal_data = [],
          control_data = [(''q_flow'', Timeseries ''q_flow'' [(0, 100), (86400, 100)] ''W'')],
          measurements = [(''T_db'', [(''Sample'',
             \<lparr>var_name = ''T_db_sample'', var_data = Scalar 1800, var_unit = ''s''\<rparr>)])],
          parameter_data = [],
          start_time = 0, final_time = 0, start_time_utc = 0, final_time_utc = 0,
          elapsed_seconds = 0\<rparr>"

definition cd0 :: "variable dict dict" where
  "cd0 = [(''q_flow'', [(''GTE'', \<lparr>var_name = ''q_flow_min'', var_data = Scalar 0, var_unit = ''W''\<rparr>)]),
          (''T_db'', [(''GTE'', \<lparr>var_name = ''T_db_min'', var_data = Scalar 283, var_unit = ''K''\<rparr>),
                      (''LTE'', \<lparr>var_name = ''T_db_max'', var_data = Scalar 303, var_unit = ''K''\<rparr>),
                      (''Initial'', \<lparr>var_name = ''T_db_initial'', var_data = Scalar 294.15, var_unit = ''K''\<rparr>)])]"

definition w0 :: world where
  "w0 = \<lparr>store = (\<lambda>ref. M0), trace = []\<rparr>"

text \<open>
  A package as it is after its construction and one initial simulation: the option store
  holds the defaults of the transferred problem, the simulation used 500 communication
  points.
\<close>

definition pk0 :: package where
  "pk0 = (new_package JModelica)
           \<lparr>opt_problem := Some \<lparr>op_class = ''Simple.RC_optimize'', op_mop = [], op_values = []\<rparr>,
            opt_options := Some opts0,
            sim_opts_ncp := Some 500,
            res := Some r0,
            res_init := Some r0\<rparr>"

definition opt0 :: optimization where
  "opt0 = \<lparr>Model = 0, constraint_data = cd0, objective_variable = ''q_flow'',
            problem_type = EnergyMin, package_type = pk0,
            solver_package = None, algorithm = None\<rparr>"

text \<open>
  A price series; an Optimization object for energy cost minimization on a package of class
  \<^verbatim>\<open>Python\<close>; an Optimization object with the bounds 10 and 30 on \<^verbatim>\<open>T_db\<close>, and two
  simulation results over one second, one below the lower bound and one between the bounds.
\<close>

definition price0 :: "variable dict" where
  "price0 = [(''pi_e'', Timeseries ''pi_e'' [(0, 1), (86400, 1)] ''unit1'')]"

definition opt_python :: optimization where
  "opt_python = opt0\<lparr>problem_type := EnergyCostMin, package_type := pk0\<lparr>kind := Python\<rparr>\<rparr>"





definition kw_none :: kwargs where
  "kw_none = \<lparr>price_data = None, kw_measurement_variable_list = None\<rparr>"


definition r_pe :: result where
  "r_pe = \<lparr>trajectories = [(''time'', [0, 86400]), (''mpc_model.q_flow'', [100, 100]),
                           (''mpc_model.T_db'', [293, 294])],
          initials = [(''mpc_model.heatCapacitor.C'', 2000000)],
          solver_statistics = (''Solve_Succeeded'', 12, 0, 1)\<rparr>"

definition X_pe :: ext where
  "X_pe = X0\<lparr>nlp_optimize := (\<lambda>prob opts. Inr r_pe)\<rparr>"

definition w_pe :: world where
  "w_pe = \<lparr>store = (\<lambda>ref. M0\<lparr>parameter_data :=
             [(''heatCapacitor.C'',
               [(''Free'', \<lparr>var_name = ''C_free'', var_data = Scalar 1, var_unit = ''boolean''\<rparr>),
                (''Value'', \<lparr>var_name = ''C_value'', var_data = Scalar 3000000, var_unit = ''J/K''\<rparr>),
                (''Minimum'', \<lparr>var_name = ''C_min'', var_data = Scalar 100000, var_unit = ''J/K''\<rparr>),
                (''Maximum'', \<lparr>var_name = ''C_max'', var_data = Scalar 10000000, var_unit = ''J/K''\<rparr>)])]\<rparr>),
           trace = []\<rparr>"

definition built_pe :: "optimization \<times> world" where
  "built_pe = outcome_state
     (Optimization_init X_pe 0 ParameterEstimate JModelica ''q_flow'' None None None w_pe)"

definition kw_empty_list :: kwargs where
  "kw_empty_list = \<lparr>price_data = None, kw_measurement_variable_list = Some []\<rparr>"

text \<open>An Optimization object whose constraint data name a kind that is not declared.\<close>

definition opt_unknown :: optimization where
  "opt_unknown = opt0\<lparr>constraint_data :=
     [(''T_db'', [(''EQ'', \<lparr>var_name = ''T_db_eq'', var_data = Scalar 293, var_unit = ''K''\<rparr>)])]\<rparr>"

section \<open>Properties of the option store\<close>








section \<open>Properties of the compiled constraints\<close>

lemma constraint_clause_known:
  "kind_of_field field = Some k \<Longrightarrow>
   constraint_clause X key field v = [render X (spec_clause k key (key_new key field) v)]"
  by (auto simp: kind_of_field_def constraint_clause_def split: if_splits)

lemma constraint_clause_unknown:
  "kind_of_field field = None \<Longrightarrow> constraint_clause X key field v = []"
  by (auto simp: kind_of_field_def constraint_clause_def split: if_splits)


lemma is_input_field_unknown:
  "kind_of_field field = None \<Longrightarrow> is_input_field field"
  by (auto simp: kind_of_field_def is_input_field_def split: if_splits)





lemma write_control_mop_result:
  "write_control_mop X self Optimization w =
     Inr (self\<lparr>opt_input_names :=
                 filter (\<lambda>key. key \<notin> set (keys (control_data (the_Model self w))))
                   (input_names (the_Model self w))
                 @ map fst (constraint_inputs (constraint_data Optimization)),
               mopfile := mopfile self @
                 [''\<newline>'',
                  ''  optimization '' @ last (split_dot (modelpath (the_Model self w))) @
                    ''_optimize (objective = (J(finalTime)), startTime=start_time, finalTime=final_time)\<newline>'',
                  ''    extends '' @ last (split_dot (modelpath (the_Model self w))) @ ''_initialize;\<newline>'',
                  ''    parameter Real start_time = 0;\<newline>'',
                  ''    parameter Real final_time = 86400;\<newline>'']
                 @ map (\<lambda>(k, v). ''    input Real '' @ k @ '';\<newline>'')
                     (constraint_inputs (constraint_data Optimization))
                 @ [''  constraint\<newline>'']
                 @ constraint_clauses X (constraint_data Optimization)
                 @ [''  end '' @ last (split_dot (modelpath (the_Model self w))) @ ''_optimize;\<newline>'',
                    ''end '' @ hd (split_dot (modelpath (the_Model self w))) @ '';\<newline>'']\<rparr>,
          update_Model self
            (\<lambda>m. m\<lparr>other_inputs := fold (\<lambda>(k, v) d. setitem d k (Some v))
                      (constraint_inputs (constraint_data Optimization)) (other_inputs m)\<rparr>) w)"
  by (simp add: write_control_mop_def Let_def)






text \<open>
  Claim C8, as the code has it.  Every clause of the \<^verbatim>\<open>constraint\<close> section is the clause
  of a declared pair whose kind is one of the seven declared kinds.  A pair of an unknown
  kind is not rejected: \<^verbatim>\<open>_write_control_mop\<close> never raises, it writes no clause for the pair
  and still declares its value as an additional input.
\<close>

theorem compiled_clause_kinds:
  "(\<forall>line \<in> set (constraint_clauses X (constraint_data Optimization)).
      \<exists>(key, field, v) \<in> set (constraint_items (constraint_data Optimization)).
        \<exists>k. kind_of_field field = Some k
           \<and> line = render X (spec_clause k key (key_new key field) v))
   \<and> (\<forall>(key, field, v) \<in> set (constraint_items (constraint_data Optimization)).
        kind_of_field field = None \<longrightarrow>
          constraint_clause X key field v = []
          \<and> (key_new key field, v) \<in> set (constraint_inputs (constraint_data Optimization)))
   \<and> \<not> isl (write_control_mop X self Optimization w)"
proof (intro conjI ballI)
  fix line assume "line \<in> set (constraint_clauses X (constraint_data Optimization))"
  then obtain key field v where it: "(key, field, v) \<in> set (constraint_items (constraint_data Optimization))"
    and ln: "line \<in> set (constraint_clause X key field v)"
    by (auto simp: constraint_clauses_def)
  show "\<exists>(key, field, v) \<in> set (constraint_items (constraint_data Optimization)).
        \<exists>k. kind_of_field field = Some k
           \<and> line = render X (spec_clause k key (key_new key field) v)"
  proof (cases "kind_of_field field")
    case None
    with ln show ?thesis by (simp add: constraint_clause_unknown)
  next
    case (Some k)
    with ln have "line = render X (spec_clause k key (key_new key field) v)"
      by (simp add: constraint_clause_known)
    with it Some show ?thesis by blast
  qed
next
  fix item assume a: "item \<in> set (constraint_items (constraint_data Optimization))"
  obtain key field v where item: "item = (key, field, v)" by (cases item) auto
  have "kind_of_field field = None \<longrightarrow>
          constraint_clause X key field v = []
          \<and> (key_new key field, v) \<in> set (constraint_inputs (constraint_data Optimization))"
  proof
    assume n: "kind_of_field field = None"
    have "(key_new key field, v) \<in> set (constraint_inputs (constraint_data Optimization))"
      using a item is_input_field_unknown [OF n] by (force simp: constraint_inputs_def)
    with n show "constraint_clause X key field v = []
          \<and> (key_new key field, v) \<in> set (constraint_inputs (constraint_data Optimization))"
      by (simp add: constraint_clause_unknown)
  qed
  with item show "case item of (key, field, v) \<Rightarrow> kind_of_field field = None \<longrightarrow>
          constraint_clause X key field v = []
          \<and> (key_new key field, v) \<in> set (constraint_inputs (constraint_data Optimization))"
    by simp
next
  show "\<not> isl (write_control_mop X self Optimization w)"
    by (simp add: write_control_mop_result)
qed

text \<open>The theorem at a constraint of the unknown kind \<^verbatim>\<open>EQ\<close> and at the constraints of the
  unit tests.\<close>

theorem compiled_clause_kinds_witness:
  "constraint_clauses X0 (constraint_data opt_unknown) = []
   \<and> constraint_inputs (constraint_data opt_unknown) =
       [(''T_db_EQ'', \<lparr>var_name = ''T_db_eq'', var_data = Scalar 293, var_unit = ''K''\<rparr>)]
   \<and> \<not> isl (write_control_mop X0 pk0 opt_unknown w0)"
proof -
  have items: "constraint_items (constraint_data opt_unknown) =
      [(''T_db'', ''EQ'', \<lparr>var_name = ''T_db_eq'', var_data = Scalar 293, var_unit = ''K''\<rparr>)]"
    by (simp add: opt_unknown_def constraint_items_def)
  have n: "kind_of_field ''EQ'' = None" by (simp add: kind_of_field_def)
  have c: "constraint_clauses X0 (constraint_data opt_unknown) = []"
    unfolding constraint_clauses_def items
    using compiled_clause_kinds [of X0 opt_unknown pk0 w0] n unfolding items by simp
  have i: "constraint_inputs (constraint_data opt_unknown) =
       [(''T_db_EQ'', \<lparr>var_name = ''T_db_eq'', var_data = Scalar 293, var_unit = ''K''\<rparr>)]"
    unfolding constraint_inputs_def items
    by (simp add: is_input_field_def key_new_def replace_dot_def)
  show ?thesis
    using compiled_clause_kinds [of X0 opt_unknown pk0 w0] c i
    by blast
qed

text \<open>
  Claim C8 as stated has a constraint set with an unknown kind rejected at compile time.
  The kind \<^verbatim>\<open>EQ\<close> is unknown, yet neither \<^verbatim>\<open>_write_control_mop\<close> nor the constructor of the
  Optimization object raises on it.
\<close>

theorem unknown_kind_counterexample:
  "kind_of_field ''EQ'' = None
   \<and> constraint_items (constraint_data opt_unknown) =
       [(''T_db'', ''EQ'', \<lparr>var_name = ''T_db_eq'', var_data = Scalar 293, var_unit = ''K''\<rparr>)]
   \<and> \<not> isl (write_control_mop X0 pk0 opt_unknown w0)
   \<and> \<not> isl (Optimization_init X0 0 EnergyMin JModelica ''q_flow''
               (Some (constraint_data opt_unknown)) None None w0)"
proof -
  have a: "kind_of_field ''EQ'' = None" by (simp add: kind_of_field_def)
  have b: "constraint_items (constraint_data opt_unknown) =
       [(''T_db'', ''EQ'', \<lparr>var_name = ''T_db_eq'', var_data = Scalar 293, var_unit = ''K''\<rparr>)]"
    by (simp add: opt_unknown_def constraint_items_def)
  have c: "\<not> isl (write_control_mop X0 pk0 opt_unknown w0)"
    by (simp add: write_control_mop_result)
  have d: "\<not> isl (Optimization_init X0 0 EnergyMin JModelica ''q_flow''
               (Some (constraint_data opt_unknown)) None None w0)"
    by (simp add: Optimization_init_def rebuild_package_def Package_init_def setup_jmodelica_def
          initalize_mop_def write_control_mop_result compile_transfer_problem_def and_then_def
          try_pure_def Let_def X0_def M0_def w0_def the_Model_def update_Model_def emit_def
          Package_set_optimization_options_def new_package_def)
  from a b c d show ?thesis by simp
qed


section \<open>Properties of the derivative-free package\<close>

text \<open>
  Claim C4 has the energy cost minimization and the parameter estimation of the package
  \<^verbatim>\<open>Python\<close> fail with a ``not implemented'' error.  The code returns from both without an
  error and without a simulation or a solve: \<^verbatim>\<open>optimize\<close> only sets the time window of the
  Model, and the trace stays empty.
\<close>

theorem python_stubs_return_silently:
  "optimize X0 0 86400 \<lparr>price_data = Some price0, kw_measurement_variable_list = None\<rparr>
     opt_python w0 =
     Inr (opt_python, w0\<lparr>store := (store w0)(0 := set_time_interval 0 86400 M0)\<rparr>)
   \<and> optimize X0 0 86400 \<lparr>price_data = None, kw_measurement_variable_list = Some [''T_db'']\<rparr>
       (opt_python\<lparr>problem_type := ParameterEstimate\<rparr>) w0 =
     Inr (opt_python\<lparr>problem_type := ParameterEstimate\<rparr>,
          w0\<lparr>store := (store w0)(0 := set_time_interval 0 86400 M0)\<rparr>)
   \<and> trace (w0\<lparr>store := (store w0)(0 := set_time_interval 0 86400 M0)\<rparr>) = []"
  by (simp add: optimize_def Problem_optimize_def Package_energycostmin_def
        Package_parameterestimate_def Python_energycostmin_def Python_parameterestimate_def
        with_package_def opt_python_def opt0_def w0_def)


section \<open>Properties of reconfiguration\<close>

text \<open>
  Claim C10.  However \<^verbatim>\<open>set_problem_type\<close> or \<^verbatim>\<open>set_package_type\<close> ends, by returning or
  by raising, the Optimization object keeps its reference to the Model, its objective
  variable and its constraint data; \<^verbatim>\<open>set_problem_type\<close> replaces the problem type and
  \<^verbatim>\<open>set_package_type\<close> keeps it.
\<close>

theorem reconfiguration_frame:
  "Model (fst (outcome_state (set_problem_type X p Optimization w))) = Model Optimization
   \<and> objective_variable (fst (outcome_state (set_problem_type X p Optimization w))) =
       objective_variable Optimization
   \<and> constraint_data (fst (outcome_state (set_problem_type X p Optimization w))) =
       constraint_data Optimization
   \<and> problem_type (fst (outcome_state (set_problem_type X p Optimization w))) = p
   \<and> Model (fst (outcome_state (set_package_type X k Optimization w))) = Model Optimization
   \<and> objective_variable (fst (outcome_state (set_package_type X k Optimization w))) =
       objective_variable Optimization
   \<and> constraint_data (fst (outcome_state (set_package_type X k Optimization w))) =
       constraint_data Optimization
   \<and> problem_type (fst (outcome_state (set_package_type X k Optimization w))) =
       problem_type Optimization"
  by (auto simp: set_problem_type_def set_package_type_def rebuild_package_def outcome_state_def
        split: sum.splits prod.splits)


section \<open>Properties of the construction of a package\<close>

lemma and_then_Inr:
  "and_then m f = Inr s' \<Longrightarrow> \<exists>s. m = Inr s \<and> f s = Inr s'"
  by (cases m) (auto simp: and_then_def)

lemma try_pure_Inr:
  "try_pure s m f = Inr s' \<Longrightarrow> \<exists>x. m = Inr x \<and> f x = Inr s'"
  by (cases m) (auto simp: try_pure_def)

lemma initalize_mop_Inr:
  "initalize_mop X self w = Inr (s, w') \<Longrightarrow>
   kind s = kind self \<and> opt_problem s = opt_problem self \<and> opt_options s = opt_options self
   \<and> pk_Model s = pk_Model self"
  by (auto simp: initalize_mop_def Let_def dest!: try_pure_Inr)

lemma write_control_mop_Inr:
  "write_control_mop X self Optimization w = Inr (s, w') \<Longrightarrow>
   kind s = kind self \<and> opt_problem s = opt_problem self \<and> opt_options s = opt_options self
   \<and> pk_Model s = pk_Model self"
  by (auto simp: write_control_mop_def Let_def)

lemma write_parameter_estimate_mop_Inr:
  "write_parameter_estimate_mop X self w = Inr (s, w') \<Longrightarrow>
   kind s = kind self \<and> opt_problem s = opt_problem self \<and> opt_options s = opt_options self
   \<and> pk_Model s = pk_Model self"
  by (auto simp: write_parameter_estimate_mop_def Let_def dest!: try_pure_Inr)

lemma compile_transfer_problem_Inr:
  "compile_transfer_problem X self w = Inr (s, w') \<Longrightarrow>
   kind s = kind self \<and> (\<exists>prob. opt_problem s = Some prob) \<and> opt_options s = opt_options self
   \<and> pk_Model s = pk_Model self"
  by (auto simp: compile_transfer_problem_def Let_def dest!: try_pure_Inr split: option.splits)

lemma setup_jmodelica_Inr:
  assumes "setup_jmodelica X p self Optimization w = Inr (s, w')"
  shows "kind s = kind self \<and> (\<exists>prob. opt_problem s = Some prob)"
proof (cases p)
  case EnergyMin
  with assms obtain s1 w1 s2 w2 where
    a: "initalize_mop X (self\<lparr>pk_Model := Model Optimization,
                      objective := ''mpc_model.'' @ objective_variable Optimization,
                      extra_inputs := []\<rparr>) w = Inr (s1, w1)"
    and b: "write_control_mop X s1 Optimization w1 = Inr (s2, w2)"
    and c: "compile_transfer_problem X s2 w2 = Inr (s, w')"
    by (auto simp: setup_jmodelica_def dest!: and_then_Inr)
  from initalize_mop_Inr [OF a] write_control_mop_Inr [OF b] compile_transfer_problem_Inr [OF c]
  show ?thesis by simp
next
  case EnergyCostMin
  with assms obtain s1 w1 s2 w2 where
    a: "initalize_mop X (self\<lparr>pk_Model := Model Optimization,
                      objective := ''mpc_model.'' @ objective_variable Optimization @ ''*pi_e'',
                      extra_inputs := [(''pi_e'', None)]\<rparr>) w = Inr (s1, w1)"
    and b: "write_control_mop X s1 Optimization w1 = Inr (s2, w2)"
    and c: "compile_transfer_problem X s2 w2 = Inr (s, w')"
    by (auto simp: setup_jmodelica_def dest!: and_then_Inr)
  from initalize_mop_Inr [OF a] write_control_mop_Inr [OF b] compile_transfer_problem_Inr [OF c]
  show ?thesis by simp
next
  case ParameterEstimate
  with assms obtain s1 w1 s2 w2 where
    a: "initalize_mop X (self\<lparr>pk_Model := Model Optimization,
                      objective := ''0'', extra_inputs := []\<rparr>) w = Inr (s1, w1)"
    and b: "write_parameter_estimate_mop X s1 w1 = Inr (s2, w2)"
    and c: "compile_transfer_problem X s2 w2 = Inr (s, w')"
    by (auto simp: setup_jmodelica_def dest!: and_then_Inr)
  from initalize_mop_Inr [OF a] write_parameter_estimate_mop_Inr [OF b] compile_transfer_problem_Inr [OF c]
  show ?thesis by simp
qed

lemma Package_init_Inr:
  assumes "Package_init X k Optimization w = Inr (pk, w')"
  shows "kind pk = k \<and> (\<exists>prob. opt_problem pk = Some prob \<and> opt_options pk = Some (optimize_options X prob))"
proof -
  from assms obtain sw where
    a: "setup_jmodelica X (problem_type Optimization) (new_package k) Optimization w = Inr sw"
    and b: "(case sw of (self, w1) \<Rightarrow>
          case opt_problem self of
            None \<Rightarrow> Inl (AttributeError ''opt_problem'', (self, w1))
          | Some prob \<Rightarrow>
              try_pure (self, w1)
                (Package_set_optimization_options self (optimize_options X prob) True)
                (\<lambda>s. Inr (s, w1))) = Inr (pk, w')"
    unfolding Package_init_def by (blast dest: and_then_Inr)
  obtain s w1 where sw: "sw = (s, w1)" by (cases sw) auto
  from setup_jmodelica_Inr [OF a [unfolded sw]] obtain prob where
    p: "kind s = k" "opt_problem s = Some prob"
    by (auto simp: new_package_def)
  with b sw have "pk = s\<lparr>opt_options := Some (optimize_options X prob)\<rparr>"
    by (simp add: Package_set_optimization_options_def try_pure_def)
  with p show ?thesis by simp
qed

lemma write_control_mop_ignores_package:
  "write_control_mop X s (Optimization\<lparr>package_type := pk\<rparr>) w =
   write_control_mop X s Optimization w"
  by (simp add: write_control_mop_def)

lemma setup_jmodelica_ignores_package:
  "setup_jmodelica X p self (Optimization\<lparr>package_type := pk\<rparr>) w =
   setup_jmodelica X p self Optimization w"
  by (cases p) (simp_all add: setup_jmodelica_def write_control_mop_ignores_package)

lemma Package_init_ignores_package:
  "Package_init X k (Optimization\<lparr>package_type := pk\<rparr>) w = Package_init X k Optimization w"
  by (simp add: Package_init_def setup_jmodelica_ignores_package)

text \<open>
  Claim C2.  After any override of the options by \<^verbatim>\<open>set_optimization_options\<close>, a
  \<^verbatim>\<open>set_problem_type\<close> that returns has replaced the problem type by the new one and the
  package by a new package of the same class, built for the new problem type: the options
  that \<^verbatim>\<open>get_optimization_options\<close> then returns are the default options of the newly
  transferred problem, the very options of the package that the constructor builds from
  the Optimization object without the override.
\<close>

theorem set_problem_type_resets_options:
  assumes "set_optimization_options Optimization user = Inr opt1"
    and "set_problem_type X p opt1 w = Inr (opt2, w2)"
  shows "problem_type opt2 = p
       \<and> kind (package_type opt2) = kind (package_type Optimization)
       \<and> (\<exists>prob. opt_problem (package_type opt2) = Some prob
                \<and> get_optimization_options opt2 = Inr (optimize_options X prob))
       \<and> (\<exists>pk. Package_init X (kind (package_type Optimization))
                  (Optimization\<lparr>problem_type := p\<rparr>) w = Inr (pk, w2)
              \<and> get_optimization_options opt2 = Package_get_optimization_options pk)"
proof -
  from assms(1) obtain pk1 where
    pk1: "opt1 = Optimization\<lparr>package_type := pk1\<rparr>" "kind pk1 = kind (package_type Optimization)"
    by (auto simp: set_optimization_options_def Package_set_optimization_options_def
          split: sum.splits option.splits)
  have same: "Package_init X (kind (package_type Optimization)) (opt1\<lparr>problem_type := p\<rparr>) w =
              Package_init X (kind (package_type Optimization)) (Optimization\<lparr>problem_type := p\<rparr>) w"
  proof -
    have "opt1\<lparr>problem_type := p\<rparr> = (Optimization\<lparr>problem_type := p\<rparr>)\<lparr>package_type := pk1\<rparr>"
      by (simp add: pk1)
    then show ?thesis by (simp only: Package_init_ignores_package)
  qed
  from assms(2) obtain pk where
    init: "Package_init X (kind (package_type Optimization)) (opt1\<lparr>problem_type := p\<rparr>) w = Inr (pk, w2)"
    and opt2: "opt2 = opt1\<lparr>problem_type := p, package_type := pk\<rparr>"
    by (auto simp: set_problem_type_def rebuild_package_def pk1 split: sum.splits)
  from Package_init_Inr [OF init] obtain prob where
    k: "kind pk = kind (package_type Optimization)" and pr: "opt_problem pk = Some prob"
    and oo: "opt_options pk = Some (optimize_options X prob)" by auto
  from opt2 k pr oo init same show ?thesis
    by (simp add: get_optimization_options_def Package_get_optimization_options_def)
qed


lemmas build_defs = set_problem_type_def rebuild_package_def Package_init_def setup_jmodelica_def
  initalize_mop_def write_control_mop_def compile_transfer_problem_def and_then_def
  try_pure_def Let_def X0_def M0_def w0_def the_Model_def update_Model_def emit_def
  Package_set_optimization_options_def new_package_def

text \<open>
  The theorem on the scenario of the unit tests: \<^verbatim>\<open>max_iter\<close> is set to 2, the problem
  type is set to energy cost minimization, and the options are the defaults again.
\<close>

theorem set_problem_type_resets_options_witness:
  "\<exists>opt1 opt2 w2.
     set_optimization_options opt0
       [(''n_e'', PInt 50), (''IPOPT_options'', PDict [(''max_iter'', PInt 2)])] = Inr opt1
     \<and> get_optimization_options opt1 =
          Inr [(''n_e'', PInt 50), (''IPOPT_options'', PDict [(''max_iter'', PInt 2)])]
     \<and> set_problem_type X0 EnergyCostMin opt1 w0 = Inr (opt2, w2)
     \<and> problem_type opt2 = EnergyCostMin
     \<and> kind (package_type opt2) = JModelica
     \<and> get_optimization_options opt2 = Inr opts0"
proof -
  let ?user = "[(''n_e'', PInt 50), (''IPOPT_options'', PDict [(''max_iter'', PInt 2)])]"
  let ?opt1 = "opt0\<lparr>package_type := pk0\<lparr>opt_options := Some ?user\<rparr>\<rparr>"
  have a: "set_optimization_options opt0 ?user = Inr ?opt1"
    by (simp add: set_optimization_options_def Package_set_optimization_options_def
          opt0_def pk0_def opts0_def new_package_def keys_def auto_keys_def getitem_def)
  have g: "get_optimization_options ?opt1 = Inr ?user"
    by (simp add: get_optimization_options_def Package_get_optimization_options_def)
  have "\<not> isl (set_problem_type X0 EnergyCostMin ?opt1 w0)"
    by (simp add: build_defs opt0_def pk0_def)
  then obtain opt2 w2 where b: "set_problem_type X0 EnergyCostMin ?opt1 w0 = Inr (opt2, w2)"
    by (cases "set_problem_type X0 EnergyCostMin ?opt1 w0") auto
  have k: "kind (package_type opt0) = JModelica"
    by (simp add: opt0_def pk0_def new_package_def)
  have d: "\<And>prob. optimize_options X0 prob = opts0" by (simp add: X0_def)
  from set_problem_type_resets_options [OF a b] k d
  have "problem_type opt2 = EnergyCostMin \<and> kind (package_type opt2) = JModelica
        \<and> get_optimization_options opt2 = Inr opts0"
    by auto
  with a g b show ?thesis by blast
qed


section \<open>Properties of a solve\<close>

lemma and_then_Inl:
  "and_then m f = Inl es \<Longrightarrow> m = Inl es \<or> (\<exists>s. m = Inr s \<and> f s = Inl es)"
  by (cases m) (auto simp: and_then_def)


lemma quiet_refl [simp]: "quiet w w"
  by (simp add: quiet_def)











































lemmas run_defs = optimize_def Problem_optimize_def Package_energymin_def Package_energycostmin_def
  Package_parameterestimate_def JModelica_energymin_def JModelica_energycostmin_def
  JModelica_parameterestimate_def with_package_def simulate_initial_def solve_def
  create_external_data_def set_auto_options_def push_parameters_def problem_set_def
  run_optimize_def get_control_results_def get_parameter_results_def result_series_def
  and_then_def try_pure_def Let_def the_Model_def update_Model_def emit_def
  set_time_interval_def getitem_def setitem_def keys_def diag_ones_def outcome_state_def










text \<open>
  Claim C5, as the code has it.  The energy cost minimization raises \<open>KeyError\<close> when the
  keyword argument \<^verbatim>\<open>price_data\<close> is absent and, on a package of class \<^verbatim>\<open>JModelica\<close>, when
  the price data have no entry \<^verbatim>\<open>pi_e\<close>; the parameter estimation raises \<open>KeyError\<close> when
  the keyword argument \<^verbatim>\<open>measurement_variable_list\<close> is absent.  In each case only the time
  window of the Model has been set: nothing was simulated or solved.
\<close>

theorem missing_signal_raises_before_solve:
  assumes "wt = w\<lparr>store := (store w)
            (Model Optimization := set_time_interval t0 t1 (store w (Model Optimization)))\<rparr>"
  shows "(problem_type Optimization = EnergyCostMin \<and> price_data kw = None \<longrightarrow>
            optimize X t0 t1 kw Optimization w = Inl (KeyError ''price_data'', (Optimization, wt)))
       \<and> (problem_type Optimization = EnergyCostMin \<and> kind (package_type Optimization) = JModelica
            \<and> price_data kw = Some price \<and> ''pi_e'' \<notin> set (keys price) \<longrightarrow>
            optimize X t0 t1 kw Optimization w = Inl (KeyError ''pi_e'', (Optimization, wt)))
       \<and> (problem_type Optimization = ParameterEstimate \<and> kw_measurement_variable_list kw = None \<longrightarrow>
            optimize X t0 t1 kw Optimization w =
              Inl (KeyError ''measurement_variable_list'', (Optimization, wt)))
       \<and> trace wt = trace w"
proof -
  have g: "''pi_e'' \<notin> set (keys price) \<Longrightarrow> getitem price ''pi_e'' = Inl (KeyError ''pi_e'')"
  proof -
    assume "''pi_e'' \<notin> set (keys price)"
    then have "map_of price ''pi_e'' = None" by (simp add: keys_def map_of_eq_None_iff)
    then show ?thesis by (simp add: getitem_def)
  qed
  show ?thesis
    using assms g
    by (auto simp: optimize_def Problem_optimize_def Package_energycostmin_def
          JModelica_energycostmin_def try_pure_def with_package_def)
qed


text \<open>The theorem on the example, without a price and without a list of channels.\<close>

theorem missing_signal_raises_before_solve_witness:
  "optimize X0 0 86400 kw_none (opt0\<lparr>problem_type := EnergyCostMin\<rparr>) w0 =
     Inl (KeyError ''price_data'', (opt0\<lparr>problem_type := EnergyCostMin\<rparr>,
          w0\<lparr>store := (store w0)(0 := set_time_interval 0 86400 (store w0 0))\<rparr>))
   \<and> optimize X0 0 86400 \<lparr>price_data = Some [], kw_measurement_variable_list = None\<rparr>
       (opt0\<lparr>problem_type := EnergyCostMin\<rparr>) w0 =
     Inl (KeyError ''pi_e'', (opt0\<lparr>problem_type := EnergyCostMin\<rparr>,
          w0\<lparr>store := (store w0)(0 := set_time_interval 0 86400 (store w0 0))\<rparr>))
   \<and> optimize X0 0 86400 kw_none (opt0\<lparr>problem_type := ParameterEstimate\<rparr>) w0 =
     Inl (KeyError ''measurement_variable_list'', (opt0\<lparr>problem_type := ParameterEstimate\<rparr>,
          w0\<lparr>store := (store w0)(0 := set_time_interval 0 86400 (store w0 0))\<rparr>))
   \<and> trace (w0\<lparr>store := (store w0)(0 := set_time_interval 0 86400 (store w0 0))\<rparr>) = []"
proof -
  let ?wt = "w0\<lparr>store := (store w0)(0 := set_time_interval 0 86400 (store w0 0))\<rparr>"
  have m: "Model opt0 = 0" by (simp add: opt0_def)
  have k: "kind (package_type opt0) = JModelica" by (simp add: opt0_def pk0_def new_package_def)
  have e: "''pi_e'' \<notin> set (keys ([] :: variable dict))" by (simp add: keys_def)
  have t: "trace w0 = []" by (simp add: w0_def)
  have 1: "?wt = w0\<lparr>store := (store w0)
            (Model (opt0\<lparr>problem_type := EnergyCostMin\<rparr>) :=
               set_time_interval 0 86400 (store w0 (Model (opt0\<lparr>problem_type := EnergyCostMin\<rparr>))))\<rparr>"
    by (simp add: m)
  have 2: "?wt = w0\<lparr>store := (store w0)
            (Model (opt0\<lparr>problem_type := ParameterEstimate\<rparr>) :=
               set_time_interval 0 86400 (store w0 (Model (opt0\<lparr>problem_type := ParameterEstimate\<rparr>))))\<rparr>"
    by (simp add: m)
  show ?thesis
    using missing_signal_raises_before_solve [OF 1, of kw_none X0 "[]"]
          missing_signal_raises_before_solve [OF 1,
            of "\<lparr>price_data = Some [], kw_measurement_variable_list = None\<rparr>" X0 "[]"]
          missing_signal_raises_before_solve [OF 2, of kw_none X0 "[]"] k e t
    by (simp add: kw_none_def)
qed

text \<open>
  Claim C5 as stated has the parameter estimation fail when the list of measurement
  channels is empty.  With the list \<^verbatim>\<open>[]\<close> the optimization built by the constructor
  simulates, solves and returns.
\<close>

theorem empty_measurement_list_counterexample:
  "\<not> isl (Optimization_init X_pe 0 ParameterEstimate JModelica ''q_flow'' None None None w_pe)
   \<and> \<not> isl (optimize X_pe 0 86400 kw_empty_list (fst built_pe) (snd built_pe))
   \<and> trace (snd (outcome_state (optimize X_pe 0 86400 kw_empty_list (fst built_pe) (snd built_pe)))) =
       [CompileFmu ''Simple.RC_initialize'', Transfer ''Simple.RC_optimize'',
        Simulate 86400,
        ProblemSet ''start_time'' (Scalar 0), ProblemSet ''final_time'' (Scalar 86400),
        ProblemOptimize (auto_options opts0 \<lparr>Q = [], quad_pen = [], eliminated = []\<rparr> r0 500),
        OptimizeReturned r_pe]"
  by (simp add: built_pe_def kw_empty_list_def Optimization_init_def build_defs run_defs
        write_parameter_estimate_mop_def parameter_text_def free_modification_def
        get_base_data_def X_pe_def w_pe_def r_pe_def auto_options_def split_dot_def)


end
